theory Spec2Isabelle
  imports Complex_Main
begin

section \<open>Numbers, strings and lookups\<close>

text \<open>
  The hazard-assessment engine of ELDQM is a set of pure TypeScript functions over a
  read-only chemical table. A JavaScript \<open>number\<close> is modelled as a \<^typ>\<open>real\<close>:
  rounding, \<open>NaN\<close> and the infinities are outside the model, so every statement below is
  about the exact arithmetic the code approximates. \<open>Math.sqrt\<close> is \<^const>\<open>sqrt\<close>, which
  agrees with it on non-negative arguments only; \<open>x / 0\<close> is \<open>0\<close> in HOL, so a quotient is
  meaningful only where the divisor is non-zero. An optional field (\<open>f?: T\<close>, or a field
  holding \<open>null\<close>) is an \<open>option\<close>.

  The table \<open>chemicalDatabase\<close> is an object literal; reading a key of it is modelled as
  a lookup among the literal's own keys. The two lower-case names that an object literal
  inherits from \<open>Object.prototype\<close> are marked by \<open>inheritedKey\<close> below: on them the
  code does not behave as on a missing key, and the definitions follow the code on every
  other name only.
\<close>

text \<open>\<open>String.prototype.toLowerCase\<close> on the ASCII letters; other characters are kept.\<close>

definition toLowerChar :: "char \<Rightarrow> char" where
  "toLowerChar c =
     (case map_of (zip ''ABCDEFGHIJKLMNOPQRSTUVWXYZ'' ''abcdefghijklmnopqrstuvwxyz'') c of
        None \<Rightarrow> c
      | Some l \<Rightarrow> l)"

definition toLowerCase :: "string \<Rightarrow> string" where
  "toLowerCase s = map toLowerChar s"

text \<open>\<open>a || b\<close> on numbers: \<open>b\<close> when \<open>a\<close> is falsy (\<open>0\<close>, or absent for an optional field).\<close>

definition num_or :: "real \<Rightarrow> real \<Rightarrow> real" where
  "num_or a b = (if a = 0 then b else a)"

definition opt_or :: "real option \<Rightarrow> real \<Rightarrow> real" where
  "opt_or a b = (case a of None \<Rightarrow> b | Some x \<Rightarrow> num_or x b)"

text \<open>\<open>a >= k\<close> for an optional number: \<open>undefined >= k\<close> is \<open>false\<close>.\<close>

definition opt_ge :: "real option \<Rightarrow> real \<Rightarrow> bool" where
  "opt_ge a k = (case a of None \<Rightarrow> False | Some x \<Rightarrow> x \<ge> k)"

section \<open>Chemical types (chemicalTypes.ts) and the chemical database\<close>

record ChemicalProperties =
  name :: string
  cas :: string
  molecularWeight :: real
  boilingPoint :: real
  vaporPressure :: real
  specificGravity :: real
  waterSolubility :: string
  idlh :: real
  lel :: real
  uel :: real
  aegl1 :: real
  aegl2 :: real
  aegl3 :: real
  erpg1 :: "real option"
  erpg2 :: "real option"
  erpg3 :: "real option"
  description :: string
  hazards :: "string list"
  color :: string
  flashPoint :: "real option"
  autoignitionTemp :: "real option"
  explosionEnergy :: "real option"
  reactivityHazard :: "real option"
  blastPotential :: "real option"
  decompositionTemp :: "real option"
  criticalTemp :: "real option"
  criticalPressure :: "real option"

datatype RiskLevel = Risk_None | Low | Moderate | High | Extreme

datatype ConcentrationUnit = MgM3 | Ppm | Percent

definition chlorine :: ChemicalProperties where
  "chlorine =
    \<lparr> name = ''Chlorine'', cas = ''7782-50-5'', molecularWeight = 70.91, boilingPoint = - 34.04,
       vaporPressure = 5168, specificGravity = 1.41, waterSolubility = ''Slightly soluble'',
       idlh = 10, lel = 0, uel = 0, aegl1 = 0.5, aegl2 = 2.0, aegl3 = 20.0, erpg1 = Some 1,
       erpg2 = Some 3, erpg3 = Some 20,
       description = ''Greenish-yellow gas with a pungent, irritating odor. Common industrial chemical used in water treatment and manufacturing.'',
       hazards = [''Respiratory irritant'', ''Oxidizer'', ''Environmental hazard''],
       color = ''#c5e17a'', flashPoint = None, autoignitionTemp = None,
       explosionEnergy = Some 0, reactivityHazard = Some 3, blastPotential = Some 1,
       decompositionTemp = Some 180, criticalTemp = Some 144, criticalPressure = Some 76.1 \<rparr>"

definition ammonia :: ChemicalProperties where
  "ammonia =
    \<lparr> name = ''Ammonia'', cas = ''7664-41-7'', molecularWeight = 17.03, boilingPoint = - 33.34,
       vaporPressure = 6870, specificGravity = 0.682, waterSolubility = ''Very soluble'',
       idlh = 300, lel = 15, uel = 28, aegl1 = 30, aegl2 = 160, aegl3 = 1100, erpg1 = Some 25,
       erpg2 = Some 150, erpg3 = Some 750,
       description = ''Colorless gas with a strong, pungent odor. Used in fertilizers, refrigeration, and manufacturing.'',
       hazards = [''Respiratory irritant'', ''Corrosive'', ''Flammable at high concentrations''],
       color = ''#e0f7fa'', flashPoint = None, autoignitionTemp = Some 651,
       explosionEnergy = Some 382, reactivityHazard = Some 3, blastPotential = Some 5,
       decompositionTemp = Some 450, criticalTemp = Some 132.4, criticalPressure = Some 111.3 \<rparr>"

definition hydrogen_sulfide :: ChemicalProperties where
  "hydrogen_sulfide =
    \<lparr> name = ''Hydrogen Sulfide'', cas = ''7783-06-4'', molecularWeight = 34.08,
       boilingPoint = - 60.33, vaporPressure = 15600, specificGravity = 0.92,
       waterSolubility = ''Moderately soluble'', idlh = 100, lel = 4, uel = 44, aegl1 = 0.51,
       aegl2 = 27, aegl3 = 50, erpg1 = None, erpg2 = None, erpg3 = None,
       description = ''Colorless gas with a strong rotten egg odor. Occurs naturally and in industrial processes.'',
       hazards = [''Respiratory irritant'', ''Neurotoxic'', ''Flammable'', ''Odor fatigue risk''],
       color = ''#bca389'', flashPoint = Some (- 60), autoignitionTemp = Some 260,
       explosionEnergy = Some 207, reactivityHazard = Some 3, blastPotential = Some 6,
       decompositionTemp = None, criticalTemp = Some 100.4, criticalPressure = Some 88.3 \<rparr>"

definition sulfur_dioxide :: ChemicalProperties where
  "sulfur_dioxide =
    \<lparr> name = ''Sulfur Dioxide'', cas = ''7446-09-5'', molecularWeight = 64.07,
       boilingPoint = - 10.0, vaporPressure = 2538, specificGravity = 1.434,
       waterSolubility = ''Very soluble'', idlh = 100, lel = 0, uel = 0, aegl1 = 0.2,
       aegl2 = 0.75, aegl3 = 30, erpg1 = None, erpg2 = None, erpg3 = None,
       description = ''Colorless gas with a strong, suffocating odor. Used in food preservation and industrial processes.'',
       hazards = [''Respiratory irritant'', ''Corrosive to tissue'', ''Environmental hazard''],
       color = ''#efe1d1'', flashPoint = None, autoignitionTemp = None,
       explosionEnergy = Some 0, reactivityHazard = Some 2, blastPotential = Some 2,
       decompositionTemp = None, criticalTemp = Some 157.5, criticalPressure = Some 77.7 \<rparr>"

definition methane :: ChemicalProperties where
  "methane =
    \<lparr> name = ''Methane'', cas = ''74-82-8'', molecularWeight = 16.04, boilingPoint = - 161.5,
       vaporPressure = 760000, specificGravity = 0.42, waterSolubility = ''Slightly soluble'',
       idlh = 0, lel = 5, uel = 15, aegl1 = 0, aegl2 = 0, aegl3 = 0, erpg1 = None,
       erpg2 = None, erpg3 = None,
       description = ''Colorless, odorless gas. Main component of natural gas. Primarily an asphyxiation and fire hazard.'',
       hazards = [''Asphyxiant'', ''Highly flammable'', ''Explosion hazard''],
       color = ''#cbe3f8'', flashPoint = Some (- 187), autoignitionTemp = Some 537,
       explosionEnergy = Some 882, reactivityHazard = Some 0, blastPotential = Some 8,
       decompositionTemp = None, criticalTemp = Some (- 82.6), criticalPressure = Some 45.8 \<rparr>"

definition carbon_monoxide :: ChemicalProperties where
  "carbon_monoxide =
    \<lparr> name = ''Carbon Monoxide'', cas = ''630-08-0'', molecularWeight = 28.01,
       boilingPoint = - 191.5, vaporPressure = 760000, specificGravity = 0.97,
       waterSolubility = ''Slightly soluble'', idlh = 1200, lel = 12.5, uel = 74, aegl1 = 0,
       aegl2 = 83, aegl3 = 330, erpg1 = None, erpg2 = None, erpg3 = None,
       description = ''Colorless, odorless gas. Produced by incomplete combustion. Binds to hemoglobin.'',
       hazards = [''Asphyxiant'', ''Hemoglobin binding'', ''Flammable'', ''Difficult to detect''],
       color = ''#e57373'', flashPoint = None, autoignitionTemp = Some 609,
       explosionEnergy = Some 283, reactivityHazard = Some 0, blastPotential = Some 7,
       decompositionTemp = None, criticalTemp = Some (- 140), criticalPressure = Some 34.5 \<rparr>"

definition benzene :: ChemicalProperties where
  "benzene =
    \<lparr> name = ''Benzene'', cas = ''71-43-2'', molecularWeight = 78.11, boilingPoint = 80.1,
       vaporPressure = 75, specificGravity = 0.88, waterSolubility = ''Slightly soluble'',
       idlh = 500, lel = 1.2, uel = 7.8, aegl1 = 52, aegl2 = 800, aegl3 = 4000, erpg1 = None,
       erpg2 = None, erpg3 = None,
       description = ''Colorless liquid with a sweet odor. Used in manufacturing and as a solvent.'',
       hazards = [''Carcinogen'', ''Central nervous system depressant'', ''Flammable'', ''Environmental hazard''],
       color = ''#ffecb3'', flashPoint = Some (- 11), autoignitionTemp = Some 498,
       explosionEnergy = Some 3300, reactivityHazard = Some 2, blastPotential = Some 6,
       decompositionTemp = None, criticalTemp = Some 289, criticalPressure = Some 47.8 \<rparr>"

definition ethylene_oxide :: ChemicalProperties where
  "ethylene_oxide =
    \<lparr> name = ''Ethylene Oxide'', cas = ''75-21-8'', molecularWeight = 44.05, boilingPoint = 10.4,
       vaporPressure = 1095, specificGravity = 0.882, waterSolubility = ''Very soluble'',
       idlh = 800, lel = 3, uel = 100, aegl1 = 5, aegl2 = 45, aegl3 = 85, erpg1 = None,
       erpg2 = None, erpg3 = None,
       description = ''Colorless gas with a sweet ether-like odor. Used in sterilization and manufacturing.'',
       hazards = [''Carcinogen'', ''Mutagen'', ''Highly flammable'', ''Explosive'', ''Reactive''],
       color = ''#b39ddb'', flashPoint = Some (- 20), autoignitionTemp = Some 429,
       explosionEnergy = Some 1700, reactivityHazard = Some 4, blastPotential = Some 9,
       decompositionTemp = None, criticalTemp = Some 195.8, criticalPressure = Some 50.9 \<rparr>"

definition hydrogen_cyanide :: ChemicalProperties where
  "hydrogen_cyanide =
    \<lparr> name = ''Hydrogen Cyanide'', cas = ''74-90-8'', molecularWeight = 27.03,
       boilingPoint = 25.6, vaporPressure = 630, specificGravity = 0.687,
       waterSolubility = ''Very soluble'', idlh = 50, lel = 5.6, uel = 40, aegl1 = 1.0,
       aegl2 = 7.1, aegl3 = 15, erpg1 = None, erpg2 = None, erpg3 = None,
       description = ''Colorless liquid or gas with bitter almond odor. Used in manufacturing and chemical synthesis.'',
       hazards = [''Highly toxic'', ''Metabolic poison'', ''Flammable'', ''Rapid acting''],
       color = ''#81d4fa'', flashPoint = Some (- 18), autoignitionTemp = Some 538,
       explosionEnergy = Some 720, reactivityHazard = Some 3, blastPotential = Some 7,
       decompositionTemp = None, criticalTemp = Some 188, criticalPressure = Some 53.9 \<rparr>"

definition phosgene :: ChemicalProperties where
  "phosgene =
    \<lparr> name = ''Phosgene'', cas = ''75-44-5'', molecularWeight = 98.92, boilingPoint = 8.3,
       vaporPressure = 1173, specificGravity = 1.432, waterSolubility = ''Reacts with water'',
       idlh = 2, lel = 0, uel = 0, aegl1 = 0, aegl2 = 0.2, aegl3 = 0.59, erpg1 = None,
       erpg2 = None, erpg3 = None,
       description = ''Colorless gas with a suffocating odor like musty hay. Used in chemical manufacturing.'',
       hazards = [''Pulmonary edema'', ''Delayed effects'', ''Corrosive'', ''Chemical weapon history''],
       color = ''#d1c4e9'', flashPoint = None, autoignitionTemp = None,
       explosionEnergy = Some 0, reactivityHazard = Some 3, blastPotential = Some 3,
       decompositionTemp = None, criticalTemp = Some 182, criticalPressure = Some 55.5 \<rparr>"

text \<open>The object literal \<open>chemicalDatabase\<close>, keyed by lower-case name.\<close>

definition chemicalDatabase :: "string \<rightharpoonup> ChemicalProperties" where
  "chemicalDatabase =
     map_of
      [(''chlorine'', chlorine), (''ammonia'', ammonia),
       (''hydrogen sulfide'', hydrogen_sulfide), (''sulfur dioxide'', sulfur_dioxide),
       (''methane'', methane), (''carbon monoxide'', carbon_monoxide),
       (''benzene'', benzene), (''ethylene oxide'', ethylene_oxide),
       (''hydrogen cyanide'', hydrogen_cyanide), (''phosgene'', phosgene)]"

text \<open>
  An object literal also answers to the property names it inherits from
  \<open>Object.prototype\<close>. Every function lower-cases the name before the lookup, and the
  inherited names written in lower case are \<open>constructor\<close> and \<open>__proto__\<close>. For these
  two, \<open>chemicalDatabase[key]\<close> is a truthy value that has none of the chemical fields:
  the test \<open>!chemData\<close> fails, the code takes the path of a known chemical and computes
  with \<open>undefined\<close> fields, which gives \<open>NaN\<close>. The model has no \<open>NaN\<close>; it treats the
  two names as missing keys, and so agrees with the code on every name that is not an
  \<open>inheritedKey\<close>.
\<close>

definition inheritedKey :: "string \<Rightarrow> bool" where
  "inheritedKey k = (k = ''constructor'' \<or> k = ''__proto__'')"

section \<open>Unit conversion and risk escalation (chemicalUtils.ts)\<close>

definition convertConcentrationUnit ::
  "real \<Rightarrow> string \<Rightarrow> ConcentrationUnit \<Rightarrow> ConcentrationUnit \<Rightarrow> real" where
  "convertConcentrationUnit val chemical fromUnit toUnit =
     (if fromUnit = toUnit then val
      else (case chemicalDatabase (toLowerCase chemical) of
        None \<Rightarrow> val
      | Some chemData \<Rightarrow>
          let mw = molecularWeight chemData;
              intermediateMgM3 =
                (case fromUnit of
                   Ppm \<Rightarrow> (val * mw) / 24.45
                 | Percent \<Rightarrow> (val * 10000 * mw) / 24.45
                 | MgM3 \<Rightarrow> val)
          in (case toUnit of
                Ppm \<Rightarrow> (intermediateMgM3 * 24.45) / mw
              | Percent \<Rightarrow> ((intermediateMgM3 * 24.45) / mw) / 10000
              | MgM3 \<Rightarrow> intermediateMgM3)))"

fun raiseRiskLevel :: "RiskLevel \<Rightarrow> RiskLevel" where
  "raiseRiskLevel Risk_None = Low"
| "raiseRiskLevel Low = Moderate"
| "raiseRiskLevel Moderate = High"
| "raiseRiskLevel High = Extreme"
| "raiseRiskLevel Extreme = Extreme"

section \<open>Blast assessment (blastAssessment.ts)\<close>

text \<open>
  The \<open>comments\<close> string is assembled from fixed text and interpolated numbers; it is kept
  as the list of its parts, so that no number formatting has to be modelled.
\<close>

datatype TextPart = Str string | Num real

record BlastAssessmentResult =
  explosionRisk :: RiskLevel
  flammabilityRisk :: RiskLevel
  potentialOverpressure :: real
  potentialThermalRadiation :: real
  safeDistance :: real
  comments :: "TextPart list"

text \<open>\<open>isFlammable\<close>: the concentration (percent by volume) lies in the flammable range.\<close>

definition blast_isFlammable :: "ChemicalProperties \<Rightarrow> real \<Rightarrow> bool" where
  "blast_isFlammable chemData concentrationPercent =
     (lel chemData > 0 \<and> concentrationPercent \<ge> lel chemData
        \<and> concentrationPercent \<le> uel chemData)"

text \<open>The chain that sets \<open>flammabilityRisk\<close>; it starts as \<open>'None'\<close> and stays so when no branch fires.\<close>

definition blast_flammabilityRisk :: "ChemicalProperties \<Rightarrow> real \<Rightarrow> RiskLevel" where
  "blast_flammabilityRisk chemData concentrationPercent =
     (if lel chemData = 0 \<and> uel chemData = 0 then Risk_None
      else if concentrationPercent < lel chemData * 0.1 then Low
      else if concentrationPercent < lel chemData * 0.5 then Moderate
      else if concentrationPercent < lel chemData then High
      else if blast_isFlammable chemData concentrationPercent then Extreme
      else if concentrationPercent > uel chemData then Moderate
      else Risk_None)"

text \<open>The chain that sets \<open>explosionRisk\<close>, before the temperature and pressure escalation.\<close>

definition blast_baseExplosionRisk :: "ChemicalProperties \<Rightarrow> real \<Rightarrow> RiskLevel" where
  "blast_baseExplosionRisk chemData concentrationPercent =
     (if lel chemData = 0 \<and> uel chemData = 0 then Risk_None
      else if opt_ge (reactivityHazard chemData) 3 \<or> opt_ge (blastPotential chemData) 7 then
        (let flammabilityRisk = blast_flammabilityRisk chemData concentrationPercent in
         if flammabilityRisk = Extreme then Extreme
         else if flammabilityRisk = High then High
         else if flammabilityRisk = Moderate then Moderate
         else Low)
      else if blast_isFlammable chemData concentrationPercent then High
      else if concentrationPercent \<ge> lel chemData * 0.5 then Moderate
      else if concentrationPercent \<ge> lel chemData * 0.1 then Low
      else Risk_None)"

text \<open>The escalation of \<open>explosionRisk\<close> by temperature and pressure.\<close>

definition blast_escalate :: "real \<Rightarrow> real \<Rightarrow> RiskLevel \<Rightarrow> RiskLevel" where
  "blast_escalate temperature pressureFactor risk =
     (if risk \<noteq> Risk_None then
        (let risk1 = (if temperature > 50 \<and> pressureFactor > 1.2 then raiseRiskLevel risk
                      else risk)
         in if temperature > 100 \<or> pressureFactor > 2 then raiseRiskLevel risk1 else risk1)
      else risk)"

definition blast_comments ::
  "ChemicalProperties \<Rightarrow> real \<Rightarrow> RiskLevel \<Rightarrow> real \<Rightarrow> real \<Rightarrow> TextPart list" where
  "blast_comments chemData concentrationPercent risk temperature pressure =
     (if risk = Risk_None then
        [Str ''This chemical does not present an explosion hazard under normal conditions.'']
      else if blast_isFlammable chemData concentrationPercent then
        [Str ''WARNING: Concentration is within flammable range ('', Num (lel chemData),
         Str ''%-'', Num (uel chemData), Str ''%). '',
         Str ''Avoid all ignition sources and implement emergency evacuation.'']
      else if concentrationPercent < lel chemData then
        [Str ''Concentration is below the Lower Explosive Limit ('', Num (lel chemData),
         Str ''%), '',
         Str ''but caution should still be exercised. Avoid ignition sources and monitor concentration.'']
      else if concentrationPercent > uel chemData then
        [Str ''Concentration is above the Upper Explosive Limit ('', Num (uel chemData),
         Str ''%), '',
         Str ''but mixture could become explosive if diluted with air. Ventilate carefully.'']
      else [])
     @ (if temperature > 50 then [Str '' Elevated temperature increases explosion risk.'']
        else [])
     @ (if pressure > 1.2 then [Str '' Elevated pressure increases explosion risk.'']
        else [])"

text \<open>
  \<open>assessBlastPotential(chemical, concentration, temperature, pressure = 1.0)\<close>; an
  omitted \<open>pressure\<close> is \<open>None\<close>.
\<close>

definition assessBlastPotential ::
  "string \<Rightarrow> real \<Rightarrow> real \<Rightarrow> real option \<Rightarrow> BlastAssessmentResult" where
  "assessBlastPotential chemical concentration temperature pressure_arg =
     (let pressure = (case pressure_arg of None \<Rightarrow> 1.0 | Some p \<Rightarrow> p) in
      case chemicalDatabase (toLowerCase chemical) of
        None \<Rightarrow>
          \<lparr> explosionRisk = Risk_None, flammabilityRisk = Risk_None,
            potentialOverpressure = 0, potentialThermalRadiation = 0, safeDistance = 100,
            comments = [Str ''Chemical data not found''] \<rparr>
      | Some chemData \<Rightarrow>
          (let concentrationPercent = convertConcentrationUnit concentration chemical MgM3 Percent;
               tempFactor = 1 + ((temperature - 20) / 100);
               pressureFactor = pressure / 1.0;
               flammabilityRisk' = blast_flammabilityRisk chemData concentrationPercent;
               explosionRisk' =
                 blast_escalate temperature pressureFactor
                   (blast_baseExplosionRisk chemData concentrationPercent);
               energy = opt_or (explosionEnergy chemData) 300;
               potentialOverpressure' =
                 (if explosionRisk' = Extreme then 10 * tempFactor * pressureFactor * energy / 300
                  else if explosionRisk' = High then 5 * tempFactor * pressureFactor * energy / 300
                  else if explosionRisk' = Moderate then 2 * tempFactor * pressureFactor * energy / 300
                  else if explosionRisk' = Low then 0.5 * tempFactor * pressureFactor * energy / 300
                  else 0);
               potentialThermalRadiation' =
                 (if flammabilityRisk' = Extreme then 25 * tempFactor * energy / 300
                  else if flammabilityRisk' = High then 10 * tempFactor * energy / 300
                  else if flammabilityRisk' = Moderate then 5 * tempFactor * energy / 300
                  else if flammabilityRisk' = Low then 1 * tempFactor * energy / 300
                  else 0);
               safeDistance' =
                 (if explosionRisk' = Extreme then 1000 * sqrt (potentialOverpressure' / 10)
                  else if explosionRisk' = High then 500 * sqrt (potentialOverpressure' / 5)
                  else if explosionRisk' = Moderate then 250 * sqrt (potentialOverpressure' / 2)
                  else if explosionRisk' = Low then 100 * sqrt (potentialOverpressure' / 0.5)
                  else 100)
           in \<lparr> explosionRisk = explosionRisk', flammabilityRisk = flammabilityRisk',
                potentialOverpressure = potentialOverpressure',
                potentialThermalRadiation = potentialThermalRadiation',
                safeDistance = safeDistance',
                comments =
                  blast_comments chemData concentrationPercent explosionRisk' temperature
                    pressure \<rparr>))"

section \<open>Mass balance (massBalance.ts)\<close>

record MassBalanceResult =
  totalReleased :: real
  massReleaseRate :: real
  vaporGenerated :: real
  vaporGenerationRate :: real
  poolFormation :: real
  poolEvaporation :: real
  poolEvaporationRate :: real
  airborneRelease :: real
  massBalance :: "(string \<times> real) list"
  timeToEmpty :: "real option"
  poolDuration :: "real option"
  poolArea :: "real option"

text \<open>
  \<open>calculateMassBalance(chemical, releaseRate, duration, temperature, pressure = 1.0,
  containerVolume?, initialMass?)\<close>. The \<open>pressure\<close> argument is not read by the body;
  \<open>timeToEmpty\<close> is set when \<open>containerVolume && initialMass\<close> is truthy (both present
  and non-zero).
\<close>

definition calculateMassBalance ::
  "string \<Rightarrow> real \<Rightarrow> real \<Rightarrow> real \<Rightarrow> real option \<Rightarrow> real option \<Rightarrow> real option
     \<Rightarrow> MassBalanceResult" where
  "calculateMassBalance chemical releaseRate duration temperature pressure_arg
       containerVolume initialMass =
     (case chemicalDatabase (toLowerCase chemical) of
        None \<Rightarrow>
          \<lparr> totalReleased = 0, massReleaseRate = 0, vaporGenerated = 0,
            vaporGenerationRate = 0, poolFormation = 0, poolEvaporation = 0,
            poolEvaporationRate = 0, airborneRelease = 0, massBalance = [],
            timeToEmpty = None, poolDuration = None, poolArea = None \<rparr>
      | Some chemData \<Rightarrow>
          (let totalReleased' = releaseRate * duration;
               tempFactor = exp (0.0555 * (temperature - 20));
               isGasAtAmbient = (boilingPoint chemData < temperature);
               vaporFraction =
                 (if isGasAtAmbient then 1.0
                  else (let vaporPressureFactor = vaporPressure chemData / 760
                        in min 1.0 (max 0.1 (0.2 + (0.8 * vaporPressureFactor * tempFactor)))));
               vaporGenerated' = totalReleased' * vaporFraction;
               vaporGenerationRate' = releaseRate * vaporFraction;
               poolFormation' = (if isGasAtAmbient then 0 else totalReleased' * (1 - vaporFraction));
               poolEvaporationRate' =
                 (if \<not> isGasAtAmbient \<and> poolFormation' > 0 then
                    (let vaporPressureFactor = vaporPressure chemData / 100;
                         molecularWeightFactor = sqrt (18 / molecularWeight chemData)
                     in min (0.005 * vaporPressureFactor * molecularWeightFactor * tempFactor
                               * sqrt poolFormation')
                            (poolFormation' / 10))
                  else 0);
               poolEvaporation' = min poolFormation' (poolEvaporationRate' * duration);
               airborneRelease' = vaporGenerated' + poolEvaporation';
               timeToEmpty' =
                 (case (containerVolume, initialMass) of
                    (Some v, Some m) \<Rightarrow>
                      if v \<noteq> 0 \<and> m \<noteq> 0 then Some (m / releaseRate) else None
                  | _ \<Rightarrow> None);
               poolArea' =
                 (if poolFormation' > 0
                  then Some ((poolFormation' / (specificGravity chemData * 1000)) * 100)
                  else None);
               poolDuration' =
                 (if poolFormation' > 0 \<and> poolEvaporation' > 0
                  then Some (poolFormation' / poolEvaporationRate') else None)
           in \<lparr> totalReleased = totalReleased', massReleaseRate = releaseRate,
                vaporGenerated = vaporGenerated', vaporGenerationRate = vaporGenerationRate',
                poolFormation = poolFormation', poolEvaporation = poolEvaporation',
                poolEvaporationRate = poolEvaporationRate', airborneRelease = airborneRelease',
                massBalance =
                  [(''Initial vapor'', vaporGenerated'), (''Pool formation'', poolFormation'),
                   (''Pool evaporation'', poolEvaporation'),
                   (''Remaining in pool'', poolFormation' - poolEvaporation'),
                   (''Total airborne'', airborneRelease')],
                timeToEmpty = timeToEmpty', poolDuration = poolDuration',
                poolArea = poolArea' \<rparr>))"

section \<open>Leak detection (leakDetection.ts)\<close>

record LeakDetectionResult =
  isLeaking :: bool
  confidence :: real
  severityLevel :: RiskLevel
  detectionThreshold :: real
  exceedsFactor :: real
  timeToAction :: real
  recommendedActions :: "string list"

text \<open>
  \<open>detectLeakage(chemical, concentration, backgroundLevel = 0.001, thresholdMultiplier = 5)\<close>;
  an omitted argument is \<open>None\<close>.
\<close>

definition detectLeakage ::
  "string \<Rightarrow> real \<Rightarrow> real option \<Rightarrow> real option \<Rightarrow> LeakDetectionResult" where
  "detectLeakage chemical concentration backgroundLevel_arg thresholdMultiplier_arg =
     (let backgroundLevel = (case backgroundLevel_arg of None \<Rightarrow> 0.001 | Some b \<Rightarrow> b);
          thresholdMultiplier = (case thresholdMultiplier_arg of None \<Rightarrow> 5 | Some m \<Rightarrow> m)
      in case chemicalDatabase (toLowerCase chemical) of
        None \<Rightarrow>
          \<lparr> isLeaking = False, confidence = 0, severityLevel = Risk_None,
            detectionThreshold = 0, exceedsFactor = 0, timeToAction = 60,
            recommendedActions = [''Verify chemical properties in database''] \<rparr>
      | Some chemData \<Rightarrow>
          (let detectionThreshold' =
                 max (backgroundLevel * thresholdMultiplier)
                     (0.01 * convertConcentrationUnit (num_or (aegl1 chemData) 1) chemical Ppm MgM3);
               isLeaking' = (concentration > detectionThreshold');
               exceedsFactor' = (if isLeaking' then concentration / detectionThreshold' else 0);
               confidence' =
                 (if isLeaking' then
                    (if exceedsFactor' \<ge> 10 then 0.95
                     else if exceedsFactor' \<ge> 5 then 0.85
                     else if exceedsFactor' \<ge> 2 then 0.7
                     else 0.5)
                  else 0);
               severityLevel' =
                 (if isLeaking' then
                    (let a1 = convertConcentrationUnit (num_or (aegl1 chemData) 0) chemical Ppm MgM3;
                         a2 = convertConcentrationUnit (num_or (aegl2 chemData) 0) chemical Ppm MgM3;
                         a3 = convertConcentrationUnit (num_or (aegl3 chemData) 0) chemical Ppm MgM3
                     in if a3 > 0 \<and> concentration \<ge> a3 then Extreme
                        else if a2 > 0 \<and> concentration \<ge> a2 then High
                        else if a1 > 0 \<and> concentration \<ge> a1 then Moderate
                        else if concentration \<ge> detectionThreshold' * 2 then Low
                        else Low)
                  else Risk_None);
               timeToAction' =
                 (if isLeaking' then
                    (case severityLevel' of
                       Extreme \<Rightarrow> 5
                     | High \<Rightarrow> 15
                     | Moderate \<Rightarrow> 30
                     | Low \<Rightarrow> 60
                     | Risk_None \<Rightarrow> 60)
                  else 60);
               recommendedActions' =
                 (if isLeaking' then
                    [''Verify reading with additional monitoring'']
                    @ (if severityLevel' = Extreme \<or> severityLevel' = High then
                         [''Activate emergency response protocol'',
                          ''Consider evacuation of affected areas'',
                          ''Use appropriate PPE for response personnel'',
                          ''Identify and isolate the source of the leak'']
                       else if severityLevel' = Moderate then
                         [''Increase ventilation in the affected area'',
                          ''Notify response team and prepare for potential escalation'',
                          ''Begin source identification procedures'']
                       else
                         [''Continue monitoring at increased frequency'',
                          ''Prepare response equipment as a precautionary measure''])
                    @ (if lel chemData > 0 \<and> uel chemData > 0 then
                         [''Eliminate all ignition sources in the vicinity'']
                       else [])
                  else
                    [''Continue routine monitoring'',
                     ''Check monitoring equipment calibration at next maintenance interval''])
           in \<lparr> isLeaking = isLeaking', confidence = confidence',
                severityLevel = severityLevel', detectionThreshold = detectionThreshold',
                exceedsFactor = exceedsFactor', timeToAction = timeToAction',
                recommendedActions = recommendedActions' \<rparr>))"

section \<open>Atmospheric stability (weatherService.ts)\<close>

text \<open>\<open>calculateStabilityClass(windSpeed, cloudCover, isDay)\<close>; \<open>isDay\<close> is a number.\<close>

definition calculateStabilityClass :: "real \<Rightarrow> real \<Rightarrow> real \<Rightarrow> string" where
  "calculateStabilityClass windSpeed cloudCover isDay =
     (let windSpeedMS = (if windSpeed > 20 then windSpeed / 3.6 else windSpeed) in
      if isDay = 1 then
        (if cloudCover < 40 then
           (if windSpeedMS < 2 then ''A''
            else if windSpeedMS < 3 then ''A-B''
            else if windSpeedMS < 5 then ''B''
            else if windSpeedMS < 6 then ''C''
            else ''D'')
         else if cloudCover < 70 then
           (if windSpeedMS < 2 then ''B''
            else if windSpeedMS < 3 then ''B-C''
            else if windSpeedMS < 5 then ''C''
            else if windSpeedMS < 6 then ''C-D''
            else ''D'')
         else
           (if windSpeedMS < 2 then ''C''
            else if windSpeedMS < 5 then ''D''
            else ''D''))
      else
        (if cloudCover \<ge> 50 then
           (if windSpeedMS < 2.5 then ''E'' else ''D'')
         else
           (if windSpeedMS < 2.5 then ''F''
            else if windSpeedMS < 4 then ''E''
            else ''D'')))"

section \<open>Dispersion zones (dispersionModel.ts)\<close>

record LatLng =
  lat :: real
  lng :: real

record WeatherImpact =
  wi_windFactor :: real
  wi_stabilityClass :: string
  wi_dispersionMultiplier :: real

datatype MonitoringMode = Continuous | Batch

record ModelParameters =
  chemicalType :: string
  releaseRate :: real
  windSpeed :: real
  windDirection :: real
  stabilityClass :: string
  temperature :: real
  sourceHeight :: real
  sourceLocation :: LatLng
  ambientPressure :: "real option"
  humidity :: "real option"
  terrain :: "string option"
  relativeHumidity :: "real option"
  isIndoor :: "bool option"
  containmentType :: "string option"
  sensorThreshold :: "real option"
  leakDuration :: "real option"
  sensorCount :: "real option"
  monitoringMode :: "MonitoringMode option"
  weatherImpact :: "WeatherImpact option"

record Zone =
  distance :: real
  concentration :: real

record ZoneData =
  red :: Zone
  orange :: Zone
  yellow :: Zone

text \<open>
  The local constants of \<open>calculateDispersion\<close> are named definitions below
  (\<open>getStabilityFactor\<close> is the inner function of that name; \<open>adjustedReleaseRate\<close>,
  \<open>baseDistance\<close> and \<open>chemicalFactor\<close> are the constants of those names).
\<close>

text \<open>\<open>a ? f(a) : d\<close> on an optional number: \<open>f\<close> runs when \<open>a\<close> is present and not \<open>0\<close>.\<close>

definition cond_num :: "real option \<Rightarrow> (real \<Rightarrow> real) \<Rightarrow> real \<Rightarrow> real" where
  "cond_num a f d = (case a of None \<Rightarrow> d | Some x \<Rightarrow> if x = 0 then d else f x)"

definition getStabilityFactor :: "string \<Rightarrow> real" where
  "getStabilityFactor s =
     (if s = ''A'' then 0.5
      else if s = ''B'' then 0.7
      else if s = ''C'' then 0.9
      else if s = ''D'' then 1.0
      else if s = ''E'' then 1.2
      else if s = ''F'' then 1.5
      else 1.0)"

text \<open>\<open>params.weatherImpact?.stabilityClass || params.stabilityClass\<close>: the empty string is falsy.\<close>

definition effectiveStabilityClass :: "ModelParameters \<Rightarrow> string" where
  "effectiveStabilityClass params =
     (case weatherImpact params of
        None \<Rightarrow> stabilityClass params
      | Some w \<Rightarrow> if wi_stabilityClass w = [] then stabilityClass params else wi_stabilityClass w)"

definition adjustedReleaseRate :: "ModelParameters \<Rightarrow> real" where
  "adjustedReleaseRate params =
     (let temperatureFactor = 1 + (temperature params - 20) / 100;
          humidityFactor =
            cond_num (relativeHumidity params) (\<lambda>rh. 1 - (rh / 200))
              (cond_num (humidity params) (\<lambda>h. 1 - (h / 200)) 1);
          pressureFactor = cond_num (ambientPressure params) (\<lambda>p. p / 1013.25) 1;
          terrainFactor =
            (if terrain params = Some ''urban'' then 0.8
             else if terrain params = Some ''forest'' then 0.7
             else if terrain params = Some ''water'' then 1.2
             else 1.0);
          containmentFactor = (if isIndoor params = Some True then 0.3 else 1.0);
          weatherImpactFactor =
            opt_or (map_option wi_dispersionMultiplier (weatherImpact params)) 1.0
      in releaseRate params * temperatureFactor * humidityFactor * pressureFactor
           * terrainFactor * containmentFactor * weatherImpactFactor)"

text \<open>
  \<open>baseDistance\<close> takes two square roots. \<open>Math.sqrt\<close> of a negative number is \<open>NaN\<close>,
  and the code then returns \<open>NaN\<close> distances; \<^const>\<open>sqrt\<close> of a negative real is a
  negative real. The definition follows the code where the adjusted release rate and the
  wind speed are not negative, and the statements about distances below assume so.
\<close>

definition baseDistance :: "ModelParameters \<Rightarrow> real" where
  "baseDistance params =
     (let stabilityFactor = getStabilityFactor (effectiveStabilityClass params);
          windFactor =
            opt_or (map_option wi_windFactor (weatherImpact params))
              (sqrt (windSpeed params) / 2)
      in sqrt (adjustedReleaseRate params) * stabilityFactor * windFactor)"

definition chemicalFactor :: "ModelParameters \<Rightarrow> real" where
  "chemicalFactor params =
     (case chemicalDatabase (toLowerCase (chemicalType params)) of
        Some chemicalData \<Rightarrow>
          (let molecularWeightFactor = sqrt (molecularWeight chemicalData) / 10;
               vaporPressureFactor = log 10 (max 1 (vaporPressure chemicalData)) / 3
           in max 0.8 (min 2.0 (molecularWeightFactor * vaporPressureFactor)))
      | None \<Rightarrow>
          (if toLowerCase (chemicalType params) = ''chlorine'' then 1.5
           else if toLowerCase (chemicalType params) = ''ammonia'' then 1.3
           else 1.2))"

text \<open>
  \<open>calculateDispersion(params)\<close>. The body draws one value from \<open>Math.random()\<close>, a number
  in \<open>[0, 1)\<close>; the draw is the second argument \<open>rnd\<close>.
\<close>

definition calculateDispersion :: "ModelParameters \<Rightarrow> real \<Rightarrow> ZoneData" where
  "calculateDispersion params rnd =
     (let chemicalData = chemicalDatabase (toLowerCase (chemicalType params));
          redDistance = baseDistance params * chemicalFactor params * 0.3;
          orangeDistance = baseDistance params * chemicalFactor params * 0.6;
          yellowDistance = baseDistance params * chemicalFactor params * 1.0;
          randomFactor = 0.95 + rnd * 0.1
      in \<lparr> red =
             \<lparr> distance = max 0.5 (min 5 (redDistance * randomFactor)),
               concentration = opt_or (map_option aegl3 chemicalData) 5 \<rparr>,
           orange =
             \<lparr> distance = max 1 (min 8 (orangeDistance * randomFactor)),
               concentration = opt_or (map_option aegl2 chemicalData) 3 \<rparr>,
           yellow =
             \<lparr> distance = max 1.5 (min 15 (yellowDistance * randomFactor)),
               concentration = opt_or (map_option aegl1 chemicalData) 1 \<rparr> \<rparr>)"

section \<open>The order of risk levels\<close>

text \<open>
  \<open>RiskLevel\<close> is the union \<open>'None' | 'Low' | 'Moderate' | 'High' | 'Extreme'\<close>, and
  \<open>raiseRiskLevel\<close> steps through it in this order; \<open>riskRank\<close> numbers the levels so.
\<close>

fun riskRank :: "RiskLevel \<Rightarrow> nat" where
  "riskRank Risk_None = 0"
| "riskRank Low = 1"
| "riskRank Moderate = 2"
| "riskRank High = 3"
| "riskRank Extreme = 4"

section \<open>Facts about the chemical database\<close>

lemmas chem_defs = chlorine_def ammonia_def hydrogen_sulfide_def sulfur_dioxide_def methane_def
  carbon_monoxide_def benzene_def ethylene_oxide_def hydrogen_cyanide_def phosgene_def

lemmas lookup_defs = chemicalDatabase_def toLowerCase_def toLowerChar_def

lemma chemicalDatabase_cases:
  assumes "chemicalDatabase k = Some cd"
  shows "cd \<in> {chlorine, ammonia, hydrogen_sulfide, sulfur_dioxide, methane, carbon_monoxide,
           benzene, ethylene_oxide, hydrogen_cyanide, phosgene}"
proof -
  from assms have "(k, cd) \<in> set [(''chlorine'', chlorine), (''ammonia'', ammonia),
       (''hydrogen sulfide'', hydrogen_sulfide), (''sulfur dioxide'', sulfur_dioxide),
       (''methane'', methane), (''carbon monoxide'', carbon_monoxide),
       (''benzene'', benzene), (''ethylene oxide'', ethylene_oxide),
       (''hydrogen cyanide'', hydrogen_cyanide), (''phosgene'', phosgene)]"
    unfolding chemicalDatabase_def by (rule map_of_SomeD)
  then show ?thesis by auto
qed

lemma db_all_molecularWeight_pos:
  "\<forall>cd \<in> {chlorine, ammonia, hydrogen_sulfide, sulfur_dioxide, methane, carbon_monoxide,
           benzene, ethylene_oxide, hydrogen_cyanide, phosgene}. 0 < molecularWeight cd"
  by (simp add: chem_defs)

lemma molecularWeight_pos:
  assumes "chemicalDatabase k = Some cd"
  shows "0 < molecularWeight cd"
  using chemicalDatabase_cases [OF assms] db_all_molecularWeight_pos by blast

lemma db_all_flammable_limits:
  "\<forall>cd \<in> {chlorine, ammonia, hydrogen_sulfide, sulfur_dioxide, methane, carbon_monoxide,
           benzene, ethylene_oxide, hydrogen_cyanide, phosgene}.
     (lel cd = 0 \<and> uel cd = 0) \<or> (0 < lel cd \<and> lel cd \<le> uel cd)"
  by (simp add: chem_defs)

lemma flammable_limits:
  assumes "chemicalDatabase k = Some cd"
  shows "(lel cd = 0 \<and> uel cd = 0) \<or> (0 < lel cd \<and> lel cd \<le> uel cd)"
  using chemicalDatabase_cases [OF assms] db_all_flammable_limits by blast

lemma db_all_aegl1_nonneg:
  "\<forall>cd \<in> {chlorine, ammonia, hydrogen_sulfide, sulfur_dioxide, methane, carbon_monoxide,
           benzene, ethylene_oxide, hydrogen_cyanide, phosgene}. 0 \<le> aegl1 cd"
  by (simp add: chem_defs)

lemma aegl1_nonneg:
  assumes "chemicalDatabase k = Some cd"
  shows "0 \<le> aegl1 cd"
  using chemicalDatabase_cases [OF assms] db_all_aegl1_nonneg by blast

lemma lookup_chlorine: "chemicalDatabase (toLowerCase ''chlorine'') = Some chlorine"
  by (simp add: lookup_defs)

lemma lookup_methane: "chemicalDatabase (toLowerCase ''methane'') = Some methane"
  by (simp add: lookup_defs)

lemma lookup_phosgene: "chemicalDatabase (toLowerCase ''phosgene'') = Some phosgene"
  by (simp add: lookup_defs)

lemma lookup_xenon: "chemicalDatabase (toLowerCase ''xenon'') = None"
  by (simp add: lookup_defs)

section \<open>Mass balance: conservation\<close>

lemma split_total: "tr * vf + tr * (1 - vf) = (tr::real)"
  by (simp add: right_diff_distrib)

lemma mb_airborne:
  "airborneRelease (calculateMassBalance chemical rate dur temp pr cv im)
     = vaporGenerated (calculateMassBalance chemical rate dur temp pr cv im)
       + poolEvaporation (calculateMassBalance chemical rate dur temp pr cv im)"
  by (cases "chemicalDatabase (toLowerCase chemical)")
     (simp_all only: calculateMassBalance_def Let_def option.case
        MassBalanceResult.select_convs add_0)

lemma mb_evaporation:
  "poolEvaporation (calculateMassBalance chemical rate dur temp pr cv im)
     = min (poolFormation (calculateMassBalance chemical rate dur temp pr cv im))
         (poolEvaporationRate (calculateMassBalance chemical rate dur temp pr cv im) * dur)"
  by (cases "chemicalDatabase (toLowerCase chemical)")
     (simp_all only: calculateMassBalance_def Let_def option.case
        MassBalanceResult.select_convs mult_zero_left min.idem)

text \<open>The vapour and the pool are the two shares \<open>vf\<close> and \<open>1 - vf\<close> of the total.\<close>

lemma mb_partition:
  "\<exists>vf. vaporGenerated (calculateMassBalance chemical rate dur temp pr cv im)
            = totalReleased (calculateMassBalance chemical rate dur temp pr cv im) * vf
      \<and> poolFormation (calculateMassBalance chemical rate dur temp pr cv im)
            = totalReleased (calculateMassBalance chemical rate dur temp pr cv im) * (1 - vf)"
proof (cases "chemicalDatabase (toLowerCase chemical)")
  case None
  then show ?thesis
    by (simp only: calculateMassBalance_def option.case MassBalanceResult.select_convs) simp
next
  case (Some cd)
  show ?thesis
  proof (cases "boilingPoint cd < temp")
    case True
    have "vaporGenerated (calculateMassBalance chemical rate dur temp pr cv im)
            = totalReleased (calculateMassBalance chemical rate dur temp pr cv im) * 1
      \<and> poolFormation (calculateMassBalance chemical rate dur temp pr cv im)
            = totalReleased (calculateMassBalance chemical rate dur temp pr cv im) * (1 - 1)"
      using Some True
      by (simp only: calculateMassBalance_def Let_def option.case
            MassBalanceResult.select_convs if_True) simp
    then show ?thesis by blast
  next
    case False
    then show ?thesis
      using Some
      by (simp only: calculateMassBalance_def Let_def option.case
            MassBalanceResult.select_convs if_False) blast
  qed
qed

text \<open>
  Claim C1. The result of \<open>calculateMassBalance\<close> conserves mass: the vapour generated and
  the pool formed add up to the total released, the airborne release is the vapour plus the
  pool evaporation, and the pool evaporation is at most the pool formed. The equalities
  are exact over the reals, hence within every tolerance; they hold for every chemical
  name and every release rate, duration, temperature and pressure, in particular for the
  known chemicals and the non-negative inputs.
\<close>

theorem calculateMassBalance_conservation:
  "vaporGenerated (calculateMassBalance chemical rate dur temp pr cv im)
     + poolFormation (calculateMassBalance chemical rate dur temp pr cv im)
     = totalReleased (calculateMassBalance chemical rate dur temp pr cv im)
   \<and> airborneRelease (calculateMassBalance chemical rate dur temp pr cv im)
     = vaporGenerated (calculateMassBalance chemical rate dur temp pr cv im)
       + poolEvaporation (calculateMassBalance chemical rate dur temp pr cv im)
   \<and> poolEvaporation (calculateMassBalance chemical rate dur temp pr cv im)
     \<le> poolFormation (calculateMassBalance chemical rate dur temp pr cv im)"
proof (intro conjI)
  obtain vf where
    "vaporGenerated (calculateMassBalance chemical rate dur temp pr cv im)
       = totalReleased (calculateMassBalance chemical rate dur temp pr cv im) * vf"
    "poolFormation (calculateMassBalance chemical rate dur temp pr cv im)
       = totalReleased (calculateMassBalance chemical rate dur temp pr cv im) * (1 - vf)"
    using mb_partition by blast
  then show "vaporGenerated (calculateMassBalance chemical rate dur temp pr cv im)
     + poolFormation (calculateMassBalance chemical rate dur temp pr cv im)
     = totalReleased (calculateMassBalance chemical rate dur temp pr cv im)"
    by (simp only: split_total)
next
  show "airborneRelease (calculateMassBalance chemical rate dur temp pr cv im)
     = vaporGenerated (calculateMassBalance chemical rate dur temp pr cv im)
       + poolEvaporation (calculateMassBalance chemical rate dur temp pr cv im)"
    by (rule mb_airborne)
next
  show "poolEvaporation (calculateMassBalance chemical rate dur temp pr cv im)
     \<le> poolFormation (calculateMassBalance chemical rate dur temp pr cv im)"
    by (simp only: mb_evaporation min.cobounded1)
qed

section \<open>Unit conversion: round trip\<close>

text \<open>
  Claim C3. Converting a value from ppm to \<open>mg/m3\<close> and back, or from percent to \<open>mg/m3\<close>
  and back, gives the value again. Every chemical of the database has a positive molecular
  weight, so the division undoes the multiplication; for a name that is not in the
  database both conversions return their input. The equality is exact over the reals.
\<close>

theorem convertConcentrationUnit_round_trip:
  "convertConcentrationUnit (convertConcentrationUnit v chemical Ppm MgM3) chemical MgM3 Ppm = v
   \<and> convertConcentrationUnit (convertConcentrationUnit v chemical Percent MgM3) chemical
        MgM3 Percent = v"
proof (cases "chemicalDatabase (toLowerCase chemical)")
  case None
  then show ?thesis by (simp add: convertConcentrationUnit_def)
next
  case (Some cd)
  then have "molecularWeight cd \<noteq> 0" using molecularWeight_pos by fastforce
  with Some show ?thesis by (simp add: convertConcentrationUnit_def Let_def)
qed

section \<open>Blast assessment: risk levels\<close>

lemma abp_flammabilityRisk:
  assumes "chemicalDatabase (toLowerCase chemical) = Some cd"
  shows "flammabilityRisk (assessBlastPotential chemical c t p)
           = blast_flammabilityRisk cd (convertConcentrationUnit c chemical MgM3 Percent)"
  using assms
  by (simp only: assessBlastPotential_def Let_def option.case BlastAssessmentResult.select_convs)

lemma abp_explosionRisk:
  assumes "chemicalDatabase (toLowerCase chemical) = Some cd"
  shows "explosionRisk (assessBlastPotential chemical c t p)
           = blast_escalate t ((case p of None \<Rightarrow> 1.0 | Some q \<Rightarrow> q) / 1.0)
               (blast_baseExplosionRisk cd (convertConcentrationUnit c chemical MgM3 Percent))"
  using assms
  by (simp only: assessBlastPotential_def Let_def option.case BlastAssessmentResult.select_convs)

lemma abp_unknown:
  assumes "chemicalDatabase (toLowerCase chemical) = None"
  shows "assessBlastPotential chemical c t p =
          \<lparr> explosionRisk = Risk_None, flammabilityRisk = Risk_None,
            potentialOverpressure = 0, potentialThermalRadiation = 0, safeDistance = 100,
            comments = [Str ''Chemical data not found''] \<rparr>"
  using assms
  by (simp only: assessBlastPotential_def Let_def option.case)

lemma raiseRiskLevel_mono:
  "riskRank a \<le> riskRank b \<Longrightarrow> riskRank (raiseRiskLevel a) \<le> riskRank (raiseRiskLevel b)"
  by (cases a; cases b) simp_all

lemma blast_escalate_mono:
  assumes "riskRank a \<le> riskRank b"
  shows "riskRank (blast_escalate t pf a) \<le> riskRank (blast_escalate t pf b)"
  using assms raiseRiskLevel_mono [of a b]
    raiseRiskLevel_mono [of "raiseRiskLevel a" "raiseRiskLevel b"]
  by (cases a; cases b) (simp_all add: blast_escalate_def Let_def)

text \<open>
  Both risk chains are monotone in the concentration (percent by volume) as long as the
  step from \<open>p1\<close> to \<open>p2\<close> does not cross the upper explosive limit.
\<close>

lemma blast_flammabilityRisk_mono:
  assumes "(lel cd = 0 \<and> uel cd = 0) \<or> (0 < lel cd \<and> lel cd \<le> uel cd)"
      and "p1 \<le> p2" and "p2 \<le> uel cd \<or> uel cd < p1"
  shows "riskRank (blast_flammabilityRisk cd p1) \<le> riskRank (blast_flammabilityRisk cd p2)"
  using assms by (auto simp: blast_flammabilityRisk_def blast_isFlammable_def)

lemma blast_baseExplosionRisk_mono:
  assumes "(lel cd = 0 \<and> uel cd = 0) \<or> (0 < lel cd \<and> lel cd \<le> uel cd)"
      and "p1 \<le> p2" and "p2 \<le> uel cd \<or> uel cd < p1"
  shows "riskRank (blast_baseExplosionRisk cd p1) \<le> riskRank (blast_baseExplosionRisk cd p2)"
  using assms
  by (auto simp: blast_baseExplosionRisk_def blast_flammabilityRisk_def blast_isFlammable_def
        Let_def)

lemma percent_mono:
  assumes "chemicalDatabase (toLowerCase chemical) = Some cd" and "c1 \<le> c2"
  shows "convertConcentrationUnit c1 chemical MgM3 Percent
           \<le> convertConcentrationUnit c2 chemical MgM3 Percent"
proof -
  have "0 < molecularWeight cd" using assms(1) by (rule molecularWeight_pos)
  then show ?thesis
    using assms by (simp add: convertConcentrationUnit_def Let_def divide_right_mono)
qed

lemma percent_methane:
  "convertConcentrationUnit c ''methane'' MgM3 Percent = c * 24.45 / 16.04 / 10000"
  by (simp add: convertConcentrationUnit_def lookup_methane methane_def)

text \<open>
  Claim C5, as stated, fails. Methane has \<open>LEL = 5\<close> and \<open>UEL = 15\<close> percent. At
  \<open>60000 mg/m3\<close> (about 9.1 percent) the concentration is inside the flammable range and
  both risks are \<open>Extreme\<close>; at \<open>200000 mg/m3\<close> (about 30.5 percent) it is above the UEL,
  where the code sets \<open>Moderate\<close> on purpose ("rich, but could become flammable if mixed
  with air"). Raising the concentration lowered both risks.
\<close>

theorem assessBlastPotential_above_uel_counterexample:
  "(60000::real) \<le> 200000
   \<and> flammabilityRisk (assessBlastPotential ''methane'' 60000 20 None) = Extreme
   \<and> flammabilityRisk (assessBlastPotential ''methane'' 200000 20 None) = Moderate
   \<and> riskRank (flammabilityRisk (assessBlastPotential ''methane'' 200000 20 None))
       < riskRank (flammabilityRisk (assessBlastPotential ''methane'' 60000 20 None))
   \<and> explosionRisk (assessBlastPotential ''methane'' 60000 20 None) = Extreme
   \<and> explosionRisk (assessBlastPotential ''methane'' 200000 20 None) = Moderate
   \<and> riskRank (explosionRisk (assessBlastPotential ''methane'' 200000 20 None))
       < riskRank (explosionRisk (assessBlastPotential ''methane'' 60000 20 None))"
  unfolding abp_flammabilityRisk [OF lookup_methane] abp_explosionRisk [OF lookup_methane]
    percent_methane
  by (simp add: blast_flammabilityRisk_def blast_baseExplosionRisk_def blast_isFlammable_def
        blast_escalate_def methane_def opt_ge_def)

text \<open>
  Claim C5, amended. For a chemical of the database, with temperature and pressure fixed,
  raising the concentration from \<open>c1\<close> to \<open>c2\<close> never lowers \<open>flammabilityRisk\<close> or
  \<open>explosionRisk\<close>, unless the step crosses the upper explosive limit: the statement
  holds when \<open>c2\<close> (in percent by volume) is at most the UEL, and when \<open>c1\<close> is already
  above it.
\<close>

theorem assessBlastPotential_monotone:
  assumes known: "chemicalDatabase (toLowerCase chemical) = Some cd"
      and le: "c1 \<le> c2"
      and nocross: "convertConcentrationUnit c2 chemical MgM3 Percent \<le> uel cd
                    \<or> uel cd < convertConcentrationUnit c1 chemical MgM3 Percent"
  shows "riskRank (flammabilityRisk (assessBlastPotential chemical c1 t p))
           \<le> riskRank (flammabilityRisk (assessBlastPotential chemical c2 t p))
       \<and> riskRank (explosionRisk (assessBlastPotential chemical c1 t p))
           \<le> riskRank (explosionRisk (assessBlastPotential chemical c2 t p))"
proof -
  note lim = flammable_limits [OF known]
  note pm = percent_mono [OF known le]
  show ?thesis
    unfolding abp_flammabilityRisk [OF known] abp_explosionRisk [OF known]
    using blast_flammabilityRisk_mono [OF lim pm nocross]
      blast_escalate_mono [OF blast_baseExplosionRisk_mono [OF lim pm nocross]]
    by blast
qed

theorem assessBlastPotential_monotone_witness:
  "chemicalDatabase (toLowerCase ''methane'') = Some methane
   \<and> (1000::real) \<le> 60000
   \<and> convertConcentrationUnit 60000 ''methane'' MgM3 Percent \<le> uel methane
   \<and> riskRank (flammabilityRisk (assessBlastPotential ''methane'' 1000 20 None))
           \<le> riskRank (flammabilityRisk (assessBlastPotential ''methane'' 60000 20 None))
   \<and> riskRank (explosionRisk (assessBlastPotential ''methane'' 1000 20 None))
           \<le> riskRank (explosionRisk (assessBlastPotential ''methane'' 60000 20 None))"
proof -
  have h1: "chemicalDatabase (toLowerCase ''methane'') = Some methane"
    by (rule lookup_methane)
  have h2: "(1000::real) \<le> 60000" by simp
  have h3: "convertConcentrationUnit 60000 ''methane'' MgM3 Percent \<le> uel methane"
    by (simp add: percent_methane methane_def)
  from h3 have h3': "convertConcentrationUnit 60000 ''methane'' MgM3 Percent \<le> uel methane
      \<or> uel methane < convertConcentrationUnit 1000 ''methane'' MgM3 Percent"
    by (rule disjI1)
  show ?thesis
    using h1 h2 h3 assessBlastPotential_monotone [OF h1 h2 h3', of 20 None] by blast
qed

text \<open>
  Claim C6. Chlorine has \<open>LEL = UEL = 0\<close>: \<open>assessBlastPotential\<close> returns
  \<open>flammabilityRisk = 'None'\<close> and \<open>explosionRisk = 'None'\<close> for every concentration,
  temperature and pressure, although its \<open>reactivityHazard\<close> is 3 (the test for
  non-flammable chemicals comes first, and the escalation leaves \<open>'None'\<close> alone).
\<close>

theorem assessBlastPotential_chlorine_none:
  "flammabilityRisk (assessBlastPotential ''chlorine'' c t p) = Risk_None
   \<and> explosionRisk (assessBlastPotential ''chlorine'' c t p) = Risk_None
   \<and> lel chlorine = 0 \<and> uel chlorine = 0 \<and> reactivityHazard chlorine = Some 3"
  unfolding abp_flammabilityRisk [OF lookup_chlorine] abp_explosionRisk [OF lookup_chlorine]
  by (simp add: blast_flammabilityRisk_def blast_baseExplosionRisk_def blast_escalate_def
        chlorine_def)

section \<open>Names that are not in the database\<close>

lemma mb_unknown:
  assumes "chemicalDatabase (toLowerCase chemical) = None"
  shows "calculateMassBalance chemical rate dur temp pr cv im =
          \<lparr> totalReleased = 0, massReleaseRate = 0, vaporGenerated = 0,
            vaporGenerationRate = 0, poolFormation = 0, poolEvaporation = 0,
            poolEvaporationRate = 0, airborneRelease = 0, massBalance = [],
            timeToEmpty = None, poolDuration = None, poolArea = None \<rparr>"
  using assms by (simp only: calculateMassBalance_def option.case)

lemma lookup_constructor:
  "chemicalDatabase (toLowerCase ''constructor'') = None
   \<and> inheritedKey (toLowerCase ''constructor'')"
  by (simp add: lookup_defs inheritedKey_def)

text \<open>
  Claim C9 says that for every chemical name that is not in the database
  \<open>calculateMassBalance\<close> returns the all-zero result, \<open>convertConcentrationUnit\<close> returns
  its input and \<open>assessBlastPotential\<close> returns \<open>'None'\<close> for both risks. The code does
  so through the early return behind \<open>!chemData\<close>, but not for the names \<open>constructor\<close>
  and \<open>__proto__\<close>: they are not in the database, yet the lookup finds the inherited
  property, the early return is skipped, and \<open>calculateMassBalance('constructor', 10, 60,
  25)\<close> has \<open>totalReleased = 600\<close> and \<open>NaN\<close> in its vapour and pool quantities, while
  \<open>convertConcentrationUnit(7, 'constructor', 'ppm', 'mg/m3')\<close> is \<open>NaN\<close>. The model
  cannot state these values. What holds of the code is the lemma below: the neutral
  results for every name that is neither in the database nor inherited.
\<close>

lemma missing_name_neutral:
  assumes "chemicalDatabase (toLowerCase chemical) = None"
      and "\<not> inheritedKey (toLowerCase chemical)"
  shows "calculateMassBalance chemical rate dur temp pr cv im =
          \<lparr> totalReleased = 0, massReleaseRate = 0, vaporGenerated = 0,
            vaporGenerationRate = 0, poolFormation = 0, poolEvaporation = 0,
            poolEvaporationRate = 0, airborneRelease = 0, massBalance = [],
            timeToEmpty = None, poolDuration = None, poolArea = None \<rparr>
      \<and> convertConcentrationUnit v chemical fromUnit toUnit = v
      \<and> explosionRisk (assessBlastPotential chemical c t p) = Risk_None
      \<and> flammabilityRisk (assessBlastPotential chemical c t p) = Risk_None"
proof (intro conjI)
  show "convertConcentrationUnit v chemical fromUnit toUnit = v"
    using assms(1) by (simp add: convertConcentrationUnit_def)
qed (simp_all only: mb_unknown [OF assms(1)] abp_unknown [OF assms(1)]
       BlastAssessmentResult.select_convs)

section \<open>Leak detection: the threshold boundary\<close>

lemma dl_threshold:
  assumes "chemicalDatabase (toLowerCase chemical) = Some cd"
  shows "detectionThreshold (detectLeakage chemical c bg m)
    = max ((case bg of None \<Rightarrow> 0.001 | Some b \<Rightarrow> b) * (case m of None \<Rightarrow> 5 | Some k \<Rightarrow> k))
          (0.01 * convertConcentrationUnit (num_or (aegl1 cd) 1) chemical Ppm MgM3)"
  using assms
  by (simp only: detectLeakage_def Let_def option.case LeakDetectionResult.select_convs)

lemma dl_isLeaking:
  assumes "chemicalDatabase (toLowerCase chemical) = Some cd"
  shows "isLeaking (detectLeakage chemical c bg m)
    = (c > detectionThreshold (detectLeakage chemical c bg m))"
  using assms
  by (simp only: detectLeakage_def Let_def option.case LeakDetectionResult.select_convs)

lemma dl_exceedsFactor:
  assumes "chemicalDatabase (toLowerCase chemical) = Some cd"
  shows "exceedsFactor (detectLeakage chemical c bg m)
    = (if isLeaking (detectLeakage chemical c bg m)
       then c / detectionThreshold (detectLeakage chemical c bg m) else 0)"
  using assms
  by (simp only: detectLeakage_def Let_def option.case LeakDetectionResult.select_convs)

lemma dl_confidence:
  assumes "chemicalDatabase (toLowerCase chemical) = Some cd"
  shows "confidence (detectLeakage chemical c bg m)
    = (if isLeaking (detectLeakage chemical c bg m) then
         (if exceedsFactor (detectLeakage chemical c bg m) \<ge> 10 then 0.95
          else if exceedsFactor (detectLeakage chemical c bg m) \<ge> 5 then 0.85
          else if exceedsFactor (detectLeakage chemical c bg m) \<ge> 2 then 0.7
          else 0.5)
       else 0)"
  using assms
  by (simp only: detectLeakage_def Let_def option.case LeakDetectionResult.select_convs)

text \<open>
  The threshold of a known chemical is positive: its second operand is one hundredth of a
  positive AEGL-1 (or of the default 1 ppm) in \<open>mg/m3\<close>.
\<close>

lemma dl_threshold_pos:
  assumes "chemicalDatabase (toLowerCase chemical) = Some cd"
  shows "0 < detectionThreshold (detectLeakage chemical c bg m)"
proof -
  have mw: "0 < molecularWeight cd" using assms by (rule molecularWeight_pos)
  have "0 \<le> aegl1 cd" using assms by (rule aegl1_nonneg)
  then have "0 < num_or (aegl1 cd) 1" by (simp add: num_or_def)
  with mw have "0 < convertConcentrationUnit (num_or (aegl1 cd) 1) chemical Ppm MgM3"
    using assms by (simp add: convertConcentrationUnit_def)
  then show ?thesis unfolding dl_threshold [OF assms] by (simp add: less_max_iff_disj)
qed

lemma thr_chlorine: "detectionThreshold (detectLeakage ''chlorine'' c (Some 1) (Some 5)) = 5"
  unfolding dl_threshold [OF lookup_chlorine]
  by (simp add: convertConcentrationUnit_def lookup_chlorine chlorine_def num_or_def)

text \<open>
  Claim C7. In \<open>detectLeakage\<close> for a known chemical: a measured concentration equal to
  the detection threshold is not a leak and has confidence \<open>0\<close>; a concentration strictly
  above the threshold and below twice the threshold is a leak with confidence \<open>0.5\<close>;
  and the confidence is \<open>0\<close> whenever \<open>isLeaking\<close> is false. The threshold is the
  \<open>detectionThreshold\<close> of the result, which does not depend on the measurement.
\<close>

theorem detectLeakage_boundary:
  assumes "chemicalDatabase (toLowerCase chemical) = Some cd"
  shows "(c = detectionThreshold (detectLeakage chemical c bg m) \<longrightarrow>
            \<not> isLeaking (detectLeakage chemical c bg m)
            \<and> confidence (detectLeakage chemical c bg m) = 0)
       \<and> (detectionThreshold (detectLeakage chemical c bg m) < c
            \<and> c < 2 * detectionThreshold (detectLeakage chemical c bg m) \<longrightarrow>
            isLeaking (detectLeakage chemical c bg m)
            \<and> confidence (detectLeakage chemical c bg m) = 0.5)
       \<and> (\<not> isLeaking (detectLeakage chemical c bg m) \<longrightarrow>
            confidence (detectLeakage chemical c bg m) = 0)"
proof -
  define thr where "thr = detectionThreshold (detectLeakage chemical c bg m)"
  have pos: "0 < thr" unfolding thr_def using assms by (rule dl_threshold_pos)
  have leak: "isLeaking (detectLeakage chemical c bg m) = (c > thr)"
    unfolding thr_def using assms by (rule dl_isLeaking)
  have ex: "exceedsFactor (detectLeakage chemical c bg m) = (if c > thr then c / thr else 0)"
    unfolding dl_exceedsFactor [OF assms] leak thr_def ..
  have conf: "confidence (detectLeakage chemical c bg m)
    = (if c > thr then
         (if c / thr \<ge> 10 then 0.95 else if c / thr \<ge> 5 then 0.85
          else if c / thr \<ge> 2 then 0.7 else 0.5)
       else 0)"
    unfolding dl_confidence [OF assms] ex leak by simp
  have "thr < c \<and> c < 2 * thr \<longrightarrow> c / thr < 2"
    using pos by (simp add: pos_divide_less_eq mult.commute)
  then show ?thesis
    unfolding leak conf thr_def [symmetric] by auto
qed

theorem detectLeakage_boundary_witness:
  "chemicalDatabase (toLowerCase ''chlorine'') = Some chlorine
   \<and> 5 = detectionThreshold (detectLeakage ''chlorine'' 5 (Some 1) (Some 5))
   \<and> \<not> isLeaking (detectLeakage ''chlorine'' 5 (Some 1) (Some 5))
   \<and> confidence (detectLeakage ''chlorine'' 5 (Some 1) (Some 5)) = 0
   \<and> detectionThreshold (detectLeakage ''chlorine'' 7 (Some 1) (Some 5)) < 7
   \<and> 7 < 2 * detectionThreshold (detectLeakage ''chlorine'' 7 (Some 1) (Some 5))
   \<and> isLeaking (detectLeakage ''chlorine'' 7 (Some 1) (Some 5))
   \<and> confidence (detectLeakage ''chlorine'' 7 (Some 1) (Some 5)) = 0.5"
  using lookup_chlorine
    detectLeakage_boundary [OF lookup_chlorine, of 5 "Some 1" "Some 5"]
    detectLeakage_boundary [OF lookup_chlorine, of 7 "Some 1" "Some 5"]
  by (simp add: thr_chlorine)

section \<open>Atmospheric stability: the classes returned\<close>

text \<open>
  Claim C8, as stated, fails. By day, under a clear sky (cloud cover below 40 percent) and
  a wind of 2.5 m/s, \<open>calculateStabilityClass\<close> returns the intermediate label \<open>A-B\<close>,
  which is none of the six classes.
\<close>

theorem calculateStabilityClass_intermediate_counterexample:
  "calculateStabilityClass 2.5 0 1 = ''A-B''
   \<and> calculateStabilityClass 2.5 0 1 \<notin> {''A'', ''B'', ''C'', ''D'', ''E'', ''F''}"
  by (simp add: calculateStabilityClass_def)

text \<open>
  Claim C8, amended. \<open>calculateStabilityClass\<close> is total and, for every wind speed, cloud
  cover and day/night flag, returns one of the nine labels \<open>A\<close>, \<open>A-B\<close>, \<open>B\<close>, \<open>B-C\<close>,
  \<open>C\<close>, \<open>C-D\<close>, \<open>D\<close>, \<open>E\<close>, \<open>F\<close>; the first character of the label, which
  \<open>calculateWeatherImpact\<close> reads with \<open>charAt(0)\<close>, is one of the six classes.
\<close>

theorem calculateStabilityClass_total:
  "calculateStabilityClass w c d
     \<in> {''A'', ''A-B'', ''B'', ''B-C'', ''C'', ''C-D'', ''D'', ''E'', ''F''}
   \<and> hd (calculateStabilityClass w c d) \<in> set ''ABCDEF''"
  by (simp add: calculateStabilityClass_def Let_def)

section \<open>Dispersion zones: concentrations and distances\<close>

lemma cd_concentrations:
  "concentration (red (calculateDispersion p r))
     = opt_or (map_option aegl3 (chemicalDatabase (toLowerCase (chemicalType p)))) 5
   \<and> concentration (orange (calculateDispersion p r))
     = opt_or (map_option aegl2 (chemicalDatabase (toLowerCase (chemicalType p)))) 3
   \<and> concentration (yellow (calculateDispersion p r))
     = opt_or (map_option aegl1 (chemicalDatabase (toLowerCase (chemicalType p)))) 1"
  by (simp only: calculateDispersion_def Let_def ZoneData.select_convs Zone.select_convs)

lemma cd_distances:
  "distance (red (calculateDispersion p r))
     = max 0.5 (min 5 (baseDistance p * chemicalFactor p * 0.3 * (0.95 + r * 0.1)))
   \<and> distance (orange (calculateDispersion p r))
     = max 1 (min 8 (baseDistance p * chemicalFactor p * 0.6 * (0.95 + r * 0.1)))
   \<and> distance (yellow (calculateDispersion p r))
     = max 1.5 (min 15 (baseDistance p * chemicalFactor p * 1.0 * (0.95 + r * 0.1)))"
  by (simp only: calculateDispersion_def Let_def ZoneData.select_convs Zone.select_convs)

lemmas cd_red_conc = cd_concentrations [THEN conjunct1]
lemmas cd_orange_conc = cd_concentrations [THEN conjunct2, THEN conjunct1]
lemmas cd_yellow_conc = cd_concentrations [THEN conjunct2, THEN conjunct2]
lemmas cd_red_dist = cd_distances [THEN conjunct1]
lemmas cd_orange_dist = cd_distances [THEN conjunct2, THEN conjunct1]
lemmas cd_yellow_dist = cd_distances [THEN conjunct2, THEN conjunct2]

text \<open>
  Claim C10. The zone concentrations of \<open>calculateDispersion\<close> are the chemical's AEGL-3,
  AEGL-2 and AEGL-1, each replaced by its default (5, 3, 1) when the chemical is unknown
  and also when the value is \<open>0\<close>, since \<open>0 || d\<close> is \<open>d\<close>. Methane, whose three AEGLs
  are \<open>0\<close>, gets 5, 3 and 1; phosgene, whose AEGL-1 alone is \<open>0\<close>, keeps 0.59 and 0.2 and
  gets 1 for the yellow zone.
\<close>

theorem calculateDispersion_default_concentrations:
  "concentration (red (calculateDispersion p r))
     = (case chemicalDatabase (toLowerCase (chemicalType p)) of
          None \<Rightarrow> 5 | Some cd \<Rightarrow> if aegl3 cd = 0 then 5 else aegl3 cd)
   \<and> concentration (orange (calculateDispersion p r))
     = (case chemicalDatabase (toLowerCase (chemicalType p)) of
          None \<Rightarrow> 3 | Some cd \<Rightarrow> if aegl2 cd = 0 then 3 else aegl2 cd)
   \<and> concentration (yellow (calculateDispersion p r))
     = (case chemicalDatabase (toLowerCase (chemicalType p)) of
          None \<Rightarrow> 1 | Some cd \<Rightarrow> if aegl1 cd = 0 then 1 else aegl1 cd)
   \<and> concentration (red (calculateDispersion (p\<lparr>chemicalType := ''methane''\<rparr>) r)) = 5
   \<and> concentration (orange (calculateDispersion (p\<lparr>chemicalType := ''methane''\<rparr>) r)) = 3
   \<and> concentration (yellow (calculateDispersion (p\<lparr>chemicalType := ''methane''\<rparr>) r)) = 1
   \<and> concentration (red (calculateDispersion (p\<lparr>chemicalType := ''phosgene''\<rparr>) r)) = 0.59
   \<and> concentration (orange (calculateDispersion (p\<lparr>chemicalType := ''phosgene''\<rparr>) r)) = 0.2
   \<and> concentration (yellow (calculateDispersion (p\<lparr>chemicalType := ''phosgene''\<rparr>) r)) = 1"
  unfolding cd_red_conc cd_orange_conc cd_yellow_conc
  by (simp add: opt_or_def num_or_def lookup_methane lookup_phosgene methane_def phosgene_def
        split: option.split)

text \<open>
  The parameters on which the distances of the model are those of the code: the two
  square roots of \<open>baseDistance\<close> are taken of numbers that are not negative, and the
  chemical name is not an inherited key (for which the code's chemical factor is \<open>NaN\<close>).
  On these the zone distances are ordered, whatever the random draw: the three unclamped
  distances are 0.3, 0.6 and 1.0 times the same number, and the clamping intervals rise
  with them.
\<close>

lemma clamp_zones_aux:
  fixes y :: real
  shows "max 0.5 (min 5 (0.3 * y)) \<le> max 1 (min 8 (0.6 * y))
       \<and> max 1 (min 8 (0.6 * y)) \<le> max 1.5 (min 15 y)"
  by (simp add: max_def min_def)

lemma clamp_zones:
  fixes x :: real
  shows "max 0.5 (min 5 (x * 0.3 * f)) \<le> max 1 (min 8 (x * 0.6 * f))
       \<and> max 1 (min 8 (x * 0.6 * f)) \<le> max 1.5 (min 15 (x * 1.0 * f))"
proof -
  have e: "x * 0.3 * f = 0.3 * (x * f)" "x * 0.6 * f = 0.6 * (x * f)" "x * 1.0 * f = x * f"
    by simp_all
  show ?thesis unfolding e by (rule clamp_zones_aux)
qed

lemma calculateDispersion_distances_ordered:
  assumes "0 \<le> adjustedReleaseRate p" and "0 \<le> windSpeed p"
      and "\<not> inheritedKey (toLowerCase (chemicalType p))"
  shows "distance (red (calculateDispersion p r)) \<le> distance (orange (calculateDispersion p r))
   \<and> distance (orange (calculateDispersion p r)) \<le> distance (yellow (calculateDispersion p r))"
  unfolding cd_red_dist cd_orange_dist cd_yellow_dist
  by (rule clamp_zones)

text \<open>
  Claim C2. The zone concentrations do not always decrease from red to orange to yellow:
  for phosgene the yellow zone gets the default 1 in place of its AEGL-1 of \<open>0\<close>, which
  is above the orange zone's 0.2 and the red zone's 0.59, although the code's comments
  call the red zone the one of highest and the yellow zone the one of lowest
  concentration. The evaluation holds for every other parameter and every random draw.
\<close>

theorem calculateDispersion_phosgene_concentrations:
  "concentration (red (calculateDispersion (p\<lparr>chemicalType := ''phosgene''\<rparr>) r)) = 0.59
   \<and> concentration (orange (calculateDispersion (p\<lparr>chemicalType := ''phosgene''\<rparr>) r)) = 0.2
   \<and> concentration (yellow (calculateDispersion (p\<lparr>chemicalType := ''phosgene''\<rparr>) r)) = 1
   \<and> concentration (orange (calculateDispersion (p\<lparr>chemicalType := ''phosgene''\<rparr>) r))
       < concentration (yellow (calculateDispersion (p\<lparr>chemicalType := ''phosgene''\<rparr>) r))
   \<and> concentration (red (calculateDispersion (p\<lparr>chemicalType := ''phosgene''\<rparr>) r))
       < concentration (yellow (calculateDispersion (p\<lparr>chemicalType := ''phosgene''\<rparr>) r))"
  unfolding cd_red_conc cd_orange_conc cd_yellow_conc
  by (simp add: opt_or_def num_or_def lookup_phosgene phosgene_def)

subsection \<open>The random jitter\<close>

lemma chemicalFactor_bounds: "0.8 \<le> chemicalFactor p \<and> chemicalFactor p \<le> 2"
  by (cases "chemicalDatabase (toLowerCase (chemicalType p))")
     (simp_all add: chemicalFactor_def Let_def)

lemma sqrt_100: "sqrt 100 = 10"
  by (rule real_sqrt_unique) simp_all

text \<open>
  Claim C4, as stated, fails. \<open>calculateDispersion\<close> multiplies every distance by
  \<open>0.95 + Math.random() * 0.1\<close>. For a chlorine release of 100 kg/min at 20 degrees, wind
  1 m/s and class D, the unclamped yellow distance is 5 times the chemical factor, which
  lies between 0.8 and 2, so no clamp applies: a draw of \<open>0\<close> gives 4.75 times the factor
  and a draw of \<open>0.5\<close> gives 5 times the factor. The same parameters give two distances.
\<close>

theorem calculateDispersion_jitter_counterexample:
  "distance (yellow (calculateDispersion
      \<lparr> chemicalType = ''chlorine'', releaseRate = 100, windSpeed = 1, windDirection = 0,
        stabilityClass = ''D'', temperature = 20, sourceHeight = 1,
        sourceLocation = \<lparr> lat = 40.7128, lng = - 74.006 \<rparr>, ambientPressure = None,
        humidity = None, terrain = None, relativeHumidity = None, isIndoor = None,
        containmentType = None, sensorThreshold = None, leakDuration = None,
        sensorCount = None, monitoringMode = None, weatherImpact = None \<rparr> 0))
   \<noteq> distance (yellow (calculateDispersion
      \<lparr> chemicalType = ''chlorine'', releaseRate = 100, windSpeed = 1, windDirection = 0,
        stabilityClass = ''D'', temperature = 20, sourceHeight = 1,
        sourceLocation = \<lparr> lat = 40.7128, lng = - 74.006 \<rparr>, ambientPressure = None,
        humidity = None, terrain = None, relativeHumidity = None, isIndoor = None,
        containmentType = None, sensorThreshold = None, leakDuration = None,
        sensorCount = None, monitoringMode = None, weatherImpact = None \<rparr> (1 / 2)))"
proof -
  define scen where "scen =
      \<lparr> chemicalType = ''chlorine'', releaseRate = 100, windSpeed = 1, windDirection = 0,
        stabilityClass = ''D'', temperature = 20, sourceHeight = 1,
        sourceLocation = \<lparr> lat = 40.7128, lng = - 74.006 \<rparr>, ambientPressure = None,
        humidity = None, terrain = None, relativeHumidity = None, isIndoor = None,
        containmentType = None, sensorThreshold = None, leakDuration = None,
        sensorCount = None, monitoringMode = None,
        weatherImpact = (None :: WeatherImpact option) \<rparr>"
  have adj: "adjustedReleaseRate scen = 100"
    by (simp add: adjustedReleaseRate_def scen_def cond_num_def opt_or_def)
  have bd: "baseDistance scen = 5"
    unfolding baseDistance_def adj
    by (simp add: scen_def effectiveStabilityClass_def getStabilityFactor_def opt_or_def
          sqrt_100)
  define cf where "cf = chemicalFactor scen"
  have cfb: "0.8 \<le> cf" "cf \<le> 2"
    unfolding cf_def using chemicalFactor_bounds [of scen] by simp_all
  have y0: "distance (yellow (calculateDispersion scen 0)) = 4.75 * cf"
    unfolding cd_yellow_dist bd cf_def [symmetric]
    using cfb by (simp add: max_def min_def)
  have y1: "distance (yellow (calculateDispersion scen (1 / 2))) = 5 * cf"
    unfolding cd_yellow_dist bd cf_def [symmetric]
    using cfb by (simp add: max_def min_def)
  have "distance (yellow (calculateDispersion scen 0))
          \<noteq> distance (yellow (calculateDispersion scen (1 / 2)))"
    unfolding y0 y1 using cfb by simp
  then show ?thesis unfolding scen_def .
qed

lemma jitter_clamp:
  fixes a b lo hi :: real
  assumes "0 < lo" and "(a \<le> 0 \<and> b \<le> 0) \<or> 0.95 * a \<le> 1.05 * b"
  shows "0.95 * max lo (min hi a) \<le> 1.05 * max lo (min hi b)"
  using assms by (auto simp: max_def min_def)

lemma jitter_scaled:
  fixes d r1 r2 :: real
  assumes "0 \<le> r1" "r1 < 1" "0 \<le> r2" "r2 < 1"
  shows "(d * (0.95 + r1 * 0.1) \<le> 0 \<and> d * (0.95 + r2 * 0.1) \<le> 0)
         \<or> 0.95 * (d * (0.95 + r1 * 0.1)) \<le> 1.05 * (d * (0.95 + r2 * 0.1))"
proof (cases "d \<le> 0")
  case True
  have "0 \<le> 0.95 + r1 * 0.1" "0 \<le> 0.95 + r2 * 0.1" using assms by simp_all
  with True show ?thesis by (simp add: mult_nonpos_nonneg)
next
  case False
  then have d: "0 \<le> d" by simp
  have "0.95 * (0.95 + r1 * 0.1) \<le> 1.05 * (0.95 + r2 * 0.1)" using assms by simp
  then have "d * (0.95 * (0.95 + r1 * 0.1)) \<le> d * (1.05 * (0.95 + r2 * 0.1))"
    using d by (rule mult_left_mono)
  then show ?thesis by (simp add: mult.left_commute)
qed

text \<open>
  Claim C4, amended. Two calls of \<open>calculateDispersion\<close> with identical model parameters
  return identical zone concentrations, and zone distances that agree up to the random
  jitter of 5 percent either way: for the draws \<open>r1\<close> and \<open>r2\<close> of the two calls, both in
  \<open>[0, 1)\<close>, and each zone, 0.95 times the distance of one call is at most 1.05 times the
  distance of the other. This is stated for the parameters on which the code computes
  numbers: the adjusted release rate and the wind speed are not negative, so that no
  square root is \<open>NaN\<close>, and the chemical name is not an inherited key. (Outside them the
  code returns \<open>NaN\<close> distances, of which no comparison holds.)
\<close>

theorem calculateDispersion_up_to_jitter:
  assumes "0 \<le> adjustedReleaseRate p" and "0 \<le> windSpeed p"
      and "\<not> inheritedKey (toLowerCase (chemicalType p))"
      and "0 \<le> r1" "r1 < 1" "0 \<le> r2" "r2 < 1"
  shows "concentration (red (calculateDispersion p r1))
           = concentration (red (calculateDispersion p r2))
       \<and> concentration (orange (calculateDispersion p r1))
           = concentration (orange (calculateDispersion p r2))
       \<and> concentration (yellow (calculateDispersion p r1))
           = concentration (yellow (calculateDispersion p r2))
       \<and> 0.95 * distance (red (calculateDispersion p r1))
           \<le> 1.05 * distance (red (calculateDispersion p r2))
       \<and> 0.95 * distance (orange (calculateDispersion p r1))
           \<le> 1.05 * distance (orange (calculateDispersion p r2))
       \<and> 0.95 * distance (yellow (calculateDispersion p r1))
           \<le> 1.05 * distance (yellow (calculateDispersion p r2))"
proof -
  have j: "0.95 * max lo (min hi (d * (0.95 + r1 * 0.1)))
             \<le> 1.05 * max lo (min hi (d * (0.95 + r2 * 0.1)))" if "0 < lo" for lo hi d :: real
    using that jitter_scaled [OF assms(4-7)] by (rule jitter_clamp)
  have conc: "concentration (red (calculateDispersion p r1))
           = concentration (red (calculateDispersion p r2))
       \<and> concentration (orange (calculateDispersion p r1))
           = concentration (orange (calculateDispersion p r2))
       \<and> concentration (yellow (calculateDispersion p r1))
           = concentration (yellow (calculateDispersion p r2))"
    unfolding cd_red_conc cd_orange_conc cd_yellow_conc by simp
  have dist_red: "0.95 * distance (red (calculateDispersion p r1))
              \<le> 1.05 * distance (red (calculateDispersion p r2))"
    unfolding cd_red_dist by (rule j) simp
  have dist_orange: "0.95 * distance (orange (calculateDispersion p r1))
              \<le> 1.05 * distance (orange (calculateDispersion p r2))"
    unfolding cd_orange_dist by (rule j) simp
  have dist_yellow: "0.95 * distance (yellow (calculateDispersion p r1))
              \<le> 1.05 * distance (yellow (calculateDispersion p r2))"
    unfolding cd_yellow_dist by (rule j) simp
  from conc dist_red dist_orange dist_yellow show ?thesis by blast
qed

theorem calculateDispersion_up_to_jitter_witness:
  "0 \<le> adjustedReleaseRate
      \<lparr> chemicalType = ''chlorine'', releaseRate = 100, windSpeed = 1, windDirection = 0,
        stabilityClass = ''D'', temperature = 20, sourceHeight = 1,
        sourceLocation = \<lparr> lat = 40.7128, lng = - 74.006 \<rparr>, ambientPressure = None,
        humidity = None, terrain = None, relativeHumidity = None, isIndoor = None,
        containmentType = None, sensorThreshold = None, leakDuration = None,
        sensorCount = None, monitoringMode = None, weatherImpact = None \<rparr>
   \<and> \<not> inheritedKey (toLowerCase ''chlorine'')
   \<and> (0::real) \<le> 1
   \<and> (0::real) \<le> 0 \<and> (0::real) < 1 \<and> (0::real) \<le> 1 / 2 \<and> (1 / 2 ::real) < 1
   \<and> 0.95 * distance (yellow (calculateDispersion
      \<lparr> chemicalType = ''chlorine'', releaseRate = 100, windSpeed = 1, windDirection = 0,
        stabilityClass = ''D'', temperature = 20, sourceHeight = 1,
        sourceLocation = \<lparr> lat = 40.7128, lng = - 74.006 \<rparr>, ambientPressure = None,
        humidity = None, terrain = None, relativeHumidity = None, isIndoor = None,
        containmentType = None, sensorThreshold = None, leakDuration = None,
        sensorCount = None, monitoringMode = None, weatherImpact = None \<rparr> 0))
     \<le> 1.05 * distance (yellow (calculateDispersion
      \<lparr> chemicalType = ''chlorine'', releaseRate = 100, windSpeed = 1, windDirection = 0,
        stabilityClass = ''D'', temperature = 20, sourceHeight = 1,
        sourceLocation = \<lparr> lat = 40.7128, lng = - 74.006 \<rparr>, ambientPressure = None,
        humidity = None, terrain = None, relativeHumidity = None, isIndoor = None,
        containmentType = None, sensorThreshold = None, leakDuration = None,
        sensorCount = None, monitoringMode = None, weatherImpact = None \<rparr> (1 / 2)))"
proof -
  define scen where "scen =
      \<lparr> chemicalType = ''chlorine'', releaseRate = 100, windSpeed = 1, windDirection = 0,
        stabilityClass = ''D'', temperature = 20, sourceHeight = 1,
        sourceLocation = \<lparr> lat = 40.7128, lng = - 74.006 \<rparr>, ambientPressure = None,
        humidity = None, terrain = None, relativeHumidity = None, isIndoor = None,
        containmentType = None, sensorThreshold = None, leakDuration = None,
        sensorCount = None, monitoringMode = None,
        weatherImpact = (None :: WeatherImpact option) \<rparr>"
  have a1: "0 \<le> adjustedReleaseRate scen"
    by (simp add: adjustedReleaseRate_def scen_def cond_num_def opt_or_def)
  have a2: "0 \<le> windSpeed scen" by (simp add: scen_def)
  have a3: "\<not> inheritedKey (toLowerCase (chemicalType scen))"
    by (simp add: scen_def inheritedKey_def toLowerCase_def toLowerChar_def)
  have a3': "\<not> inheritedKey (toLowerCase ''chlorine'')"
    using a3 by (simp add: scen_def)
  have h1: "(0::real) \<le> 0" and h2: "(0::real) < 1"
    and h3: "(0::real) \<le> 1 / 2" and h4: "(1 / 2 ::real) < 1"
    by simp_all
  have "0.95 * distance (yellow (calculateDispersion scen 0))
          \<le> 1.05 * distance (yellow (calculateDispersion scen (1 / 2)))"
    using calculateDispersion_up_to_jitter [OF a1 a2 a3 h1 h2 h3 h4] by blast
  with a1 a3' show ?thesis unfolding scen_def by simp
qed

end
